theory Spec2Isabelle
  imports Main
begin

section \<open>Python values of \<^verbatim>\<open>flanker.addresslib.address\<close>\<close>

text \<open>
  The module is Python 2: a \<^verbatim>\<open>str\<close> is a byte string, a \<^verbatim>\<open>unicode\<close> is a
  sequence of code points, and \<^verbatim>\<open>basestring\<close> is either of them.
\<close>

type_synonym bytes = string
type_synonym unicode = "nat list"

datatype pytext = Str bytes | Unicode unicode

text \<open>An ASCII literal of the source, read as \<^verbatim>\<open>unicode\<close>.\<close>

definition ascii :: "string \<Rightarrow> unicode" where
  "ascii s = map of_char s"

text \<open>\<^verbatim>\<open>class EmailAddress\<close>: the three private attributes.\<close>

record EmailAddress =
  display_name :: unicode
  local_part :: unicode
  domain :: unicode

text \<open>\<^verbatim>\<open>class UrlAddress\<close>: the private attribute \<^verbatim>\<open>_address\<close>.\<close>

record UrlAddress =
  url_address :: unicode

text \<open>
  The values the entry points receive and return. \<open>PyAddressList\<close> is an
  \<^verbatim>\<open>AddressList\<close> object, given by its \<^verbatim>\<open>container\<close>.
\<close>

datatype pyval =
    PyNone
  | PyBool bool
  | PyInt int
  | PyText pytext
  | PyList "pyval list"
  | PyEmail EmailAddress
  | PyUrl UrlAddress
  | PyAddressList "pyval list"

text \<open>
  The truth value of \<^verbatim>\<open>if x:\<close>. \<^verbatim>\<open>EmailAddress\<close> and \<^verbatim>\<open>UrlAddress\<close> define
  neither \<^verbatim>\<open>__nonzero__\<close> nor \<^verbatim>\<open>__len__\<close>, so their instances are true;
  \<^verbatim>\<open>AddressList.__len__\<close> is the length of the container.
\<close>

fun truthy :: "pyval \<Rightarrow> bool" where
  "truthy PyNone = False"
| "truthy (PyBool b) = b"
| "truthy (PyInt n) = (n \<noteq> 0)"
| "truthy (PyText (Str s)) = (s \<noteq> [])"
| "truthy (PyText (Unicode u)) = (u \<noteq> [])"
| "truthy (PyList xs) = (xs \<noteq> [])"
| "truthy (PyEmail a) = True"
| "truthy (PyUrl a) = True"
| "truthy (PyAddressList c) = (c \<noteq> [])"

text \<open>\<^verbatim>\<open>len(x)\<close> of a string: bytes of a \<^verbatim>\<open>str\<close>, code points of a \<^verbatim>\<open>unicode\<close>.\<close>

fun py_len :: "pytext \<Rightarrow> nat" where
  "py_len (Str s) = length s"
| "py_len (Unicode u) = length u"

text \<open>
  The classes of the exceptions that the module raises or lets through. In Python
  \<^verbatim>\<open>UnicodeDecodeError\<close> is a subclass of \<^verbatim>\<open>UnicodeError\<close>, which is a subclass of
  \<^verbatim>\<open>ValueError\<close>; the other classes here are unrelated to each other.
\<close>

datatype py_exception =
    SyntaxError
  | ValueError
  | UnicodeError
  | UnicodeDecodeError
  | AttributeError
  | TypeError
  | IndexError


section \<open>Collaborators\<close>

text \<open>
  What the grammar engine raises (all three are caught by \<^verbatim>\<open>parse\<close>), and the syntax
  tree it returns: \<^verbatim>\<open>Mailbox(display_name, local_part, domain)\<close>, \<^verbatim>\<open>Url(address)\<close>,
  a list of trees, or anything else.
\<close>

datatype parser_error = LexError | YaccError | ParserSyntaxError

datatype tree =
    Mailbox bytes bytes bytes
  | Url bytes
  | TreeList "tree list"
  | TreeOther

text \<open>
  The metrics dictionaries: \<^verbatim>\<open>mail_exchanger_lookup\<close> reports the first three keys,
  \<^verbatim>\<open>validate_address\<close> and \<^verbatim>\<open>validate_list\<close> all five. Times are exact numbers
  of clock ticks.
\<close>

record mx_metrics =
  mx_lookup :: int
  dns_lookup :: int
  mx_conn :: int

record mtimes = mx_metrics +
  parsing :: int
  custom_grammar :: int

text \<open>
  Everything the module imports and does not define, taken as a parameter:
  \<^item> \<open>ticks env k\<close> is what the module's \<open>k\<close>-th call of \<^verbatim>\<open>time.time()\<close> returns;
  \<^item> the codecs \<^verbatim>\<open>encode('utf-8')\<close>, \<^verbatim>\<open>decode('utf-8')\<close> (which can raise) and
    \<^verbatim>\<open>encode('idna')\<close> (which can raise), the per-character table of
    \<^verbatim>\<open>unicode.lower()\<close>, and the built-in \<^verbatim>\<open>hash\<close> of a string;
  \<^item> the three parsers of \<^verbatim>\<open>flanker.addresslib.parser\<close>;
  \<^item> \<^verbatim>\<open>smart_unquote\<close>, \<^verbatim>\<open>smart_quote\<close> and \<^verbatim>\<open>encode_string\<close> (its argument
    \<^verbatim>\<open>maxlinelen\<close> is the second parameter);
  \<^item> \<^verbatim>\<open>preparse_address\<close>, \<^verbatim>\<open>mail_exchanger_lookup\<close> and \<^verbatim>\<open>plugin_for_esp\<close> of
    \<^verbatim>\<open>flanker.addresslib.validate\<close>; a plugin is given by its \<^verbatim>\<open>validate\<close>.
\<close>

record env =
  ticks :: "nat \<Rightarrow> int"
  utf8_encode :: "unicode \<Rightarrow> bytes"
  utf8_decode :: "bytes \<Rightarrow> unicode option"
  idna_encode :: "unicode \<Rightarrow> unicode option"
  unichr_lower :: "nat \<Rightarrow> nat"
  py_hash :: "unicode \<Rightarrow> int"
  addr_spec_parser :: "bytes \<Rightarrow> parser_error + tree"
  mailbox_or_url_parser :: "bytes \<Rightarrow> parser_error + tree"
  mailbox_or_url_list_parser :: "bytes \<Rightarrow> parser_error + tree"
  smart_unquote :: "unicode \<Rightarrow> unicode"
  smart_quote :: "unicode \<Rightarrow> unicode"
  encode_string :: "unicode \<Rightarrow> nat \<Rightarrow> unicode"
  preparse_address :: "pyval \<Rightarrow> pytext list option"
  mail_exchanger_lookup :: "pytext \<Rightarrow> string option \<times> mx_metrics"
  plugin_for_esp :: "string \<Rightarrow> (pytext \<Rightarrow> pyval) option"

text \<open>
  Modelled from the spec: \<^verbatim>\<open>flanker.utils.is_pure_ascii\<close> is not among the sources;
  the specification says that it tells whether a text contains non-ASCII characters.
\<close>

definition is_pure_ascii :: "unicode \<Rightarrow> bool" where
  "is_pure_ascii value = list_all (\<lambda>c. c < 128) value"

text \<open>\<^verbatim>\<open>unicode.lower()\<close> maps every character through the table.\<close>

definition lower :: "env \<Rightarrow> unicode \<Rightarrow> unicode" where
  "lower env u = map (unichr_lower env) u"

section \<open>Constants\<close>

definition MAX_ADDRESS_LENGTH :: nat where
  "MAX_ADDRESS_LENGTH = 1024"

definition MAX_ADDRESS_NUMBER :: nat where
  "MAX_ADDRESS_NUMBER = 1024"

definition MAX_ADDRESS_LIST_LENGTH :: nat where
  "MAX_ADDRESS_LIST_LENGTH = MAX_ADDRESS_LENGTH * MAX_ADDRESS_NUMBER"

section \<open>The address model\<close>

text \<open>
  \<^verbatim>\<open>EmailAddress.__init__\<close>, the branch taken when neither \<^verbatim>\<open>raw_display_name\<close> nor
  \<^verbatim>\<open>raw_addr_spec\<close> is given (the call that \<^verbatim>\<open>_lift_parser_result\<close> makes): the parts
  are stored when \<^verbatim>\<open>local_part and domain\<close>, and \<^verbatim>\<open>SyntaxError\<close> is raised otherwise.
  \<^verbatim>\<open>display_name or ''\<close> of a text is the text.
\<close>

definition EmailAddress_init :: "unicode \<Rightarrow> unicode \<Rightarrow> unicode \<Rightarrow> py_exception + EmailAddress" where
  "EmailAddress_init dn lp dm =
     (if lp \<noteq> [] \<and> dm \<noteq> []
      then Inr \<lparr>display_name = dn, local_part = lp, domain = dm\<rparr>
      else Inl SyntaxError)"

text \<open>\<^verbatim>\<open>UrlAddress.__init__\<close> with \<^verbatim>\<open>address=\<close> only.\<close>

definition UrlAddress_init :: "unicode \<Rightarrow> py_exception + UrlAddress" where
  "UrlAddress_init a =
     (if a \<noteq> [] then Inr \<lparr>url_address = a\<rparr> else Inl SyntaxError)"

text \<open>
  The property \<^verbatim>\<open>EmailAddress.address\<close>: the local part, an at sign and
  \<^verbatim>\<open>domain.lower()\<close>, put together by \<^verbatim>\<open>format\<close>.
\<close>

definition EmailAddress_address :: "env \<Rightarrow> EmailAddress \<Rightarrow> unicode" where
  "EmailAddress_address env self = local_part self @ ascii ''@'' @ lower env (domain self)"

definition requires_non_ascii :: "EmailAddress \<Rightarrow> bool" where
  "requires_non_ascii self = (\<not> is_pure_ascii (local_part self))"

definition contains_non_ascii :: "env \<Rightarrow> EmailAddress \<Rightarrow> bool" where
  "contains_non_ascii env self = (\<not> is_pure_ascii (EmailAddress_address env self))"

definition to_unicode :: "EmailAddress \<Rightarrow> unicode" where
  "to_unicode self =
     (if display_name self \<noteq> []
      then display_name self @ ascii '' <'' @ local_part self @ ascii ''@'' @ domain self @ ascii ''>''
      else local_part self @ ascii ''@'' @ domain self)"

text \<open>
  \<^verbatim>\<open>to_ace\<close>: \<open>ValueError\<close> is the \<^verbatim>\<open>raise ValueError('address ... has no
  ASCII-compatable encoding')\<close> of the first statement; \<open>UnicodeError\<close>, which is a
  \<^verbatim>\<open>ValueError\<close> too, is what the \<^verbatim>\<open>idna\<close> codec raises on a domain it cannot encode,
  and \<^verbatim>\<open>to_ace\<close> does not catch it. The byte strings that the codec
  and \<^verbatim>\<open>smart_quote\<close> return are ASCII, and \<^verbatim>\<open>format\<close> puts them into the
  \<^verbatim>\<open>unicode\<close> result as they are.
\<close>

definition to_ace :: "env \<Rightarrow> EmailAddress \<Rightarrow> py_exception + unicode" where
  "to_ace env self =
     (if \<not> is_pure_ascii (local_part self) then Inl ValueError
      else (case idna_encode env (lower env (domain self)) of
              None \<Rightarrow> Inl UnicodeError
            | Some ace_domain \<Rightarrow>
                if display_name self \<noteq> []
                then (let ace_display_name =
                            smart_quote env (encode_string env (display_name self) MAX_ADDRESS_LENGTH)
                      in Inr (ace_display_name @ ascii '' <'' @ local_part self @ ascii ''@''
                                @ ace_domain @ ascii ''>''))
                else Inr (local_part self @ ascii ''@'' @ ace_domain)))"

definition full_spec :: "env \<Rightarrow> EmailAddress \<Rightarrow> py_exception + bytes" where
  "full_spec env self =
     (if requires_non_ascii self
      then Inr (utf8_encode env (to_unicode self))
      else (case to_ace env self of
              Inl e \<Rightarrow> Inl e
            | Inr a \<Rightarrow> Inr (utf8_encode env a)))"

definition EmailAddress_hash :: "env \<Rightarrow> EmailAddress \<Rightarrow> int" where
  "EmailAddress_hash env self = py_hash env (lower env (EmailAddress_address env self))"

section \<open>Parsing\<close>

text \<open>
  \<^verbatim>\<open>_lift_parser_result\<close>. The keyword arguments are evaluated from left to right, each
  \<^verbatim>\<open>decode('utf-8')\<close> can raise \<open>UnicodeDecodeError\<close>, then the constructor runs.
  \<^verbatim>\<open>map\<close> over a list stops at the first element that raises.
\<close>

fun lift_parser_result :: "env \<Rightarrow> tree \<Rightarrow> py_exception + pyval"
  and lift_parser_results :: "env \<Rightarrow> tree list \<Rightarrow> py_exception + pyval list" where
  "lift_parser_result env (Mailbox dn lp dm) =
     (case utf8_decode env dn of
        None \<Rightarrow> Inl UnicodeDecodeError
      | Some dn' \<Rightarrow>
         (case utf8_decode env lp of
            None \<Rightarrow> Inl UnicodeDecodeError
          | Some lp' \<Rightarrow>
             (case utf8_decode env dm of
                None \<Rightarrow> Inl UnicodeDecodeError
              | Some dm' \<Rightarrow>
                 (case EmailAddress_init (smart_unquote env dn') lp' dm' of
                    Inl e \<Rightarrow> Inl e
                  | Inr a \<Rightarrow> Inr (PyEmail a)))))"
| "lift_parser_result env (Url a) =
     (case utf8_decode env a of
        None \<Rightarrow> Inl UnicodeDecodeError
      | Some a' \<Rightarrow>
         (case UrlAddress_init a' of
            Inl e \<Rightarrow> Inl e
          | Inr u \<Rightarrow> Inr (PyUrl u)))"
| "lift_parser_result env (TreeList ts) =
     (case lift_parser_results env ts of
        Inl e \<Rightarrow> Inl e
      | Inr vs \<Rightarrow> Inr (PyAddressList vs))"
| "lift_parser_result env TreeOther = Inr PyNone"
| "lift_parser_results env [] = Inr []"
| "lift_parser_results env (t # ts) =
     (case lift_parser_result env t of
        Inl e \<Rightarrow> Inl e
      | Inr v \<Rightarrow>
         (case lift_parser_results env ts of
            Inl e \<Rightarrow> Inl e
          | Inr vs \<Rightarrow> Inr (v # vs)))"

text \<open>\<^verbatim>\<open>if isinstance(address, unicode): address = address.encode('utf-8')\<close>.\<close>

fun to_bytestring :: "env \<Rightarrow> pytext \<Rightarrow> bytes" where
  "to_bytestring env (Str s) = s"
| "to_bytestring env (Unicode u) = utf8_encode env u"

text \<open>
  \<^verbatim>\<open>parse\<close>, on a string, which is what every caller in the module passes. A result is
  the returned value, \<^verbatim>\<open>mtimes['parsing']\<close> and the number of clock readings made so
  far. The three parser exceptions and the \<open>SyntaxError\<close> of a constructor are caught,
  and \<^verbatim>\<open>mtimes['parsing']\<close> is then still 0; any other exception leaves the function.
\<close>

definition parse :: "env \<Rightarrow> pytext \<Rightarrow> bool \<Rightarrow> nat \<Rightarrow> py_exception + (pyval \<times> int \<times> nat)" where
  "parse env text addr_spec_only k =
     (let parser = (if addr_spec_only then addr_spec_parser env else mailbox_or_url_parser env);
          address = to_bytestring env text
      in if address = [] then Inr (PyNone, 0, k)
         else if length address > MAX_ADDRESS_LENGTH then Inr (PyNone, 0, k)
         else (case parser address of
                 Inl err \<Rightarrow> Inr (PyNone, 0, Suc k)
               | Inr t \<Rightarrow>
                  (case lift_parser_result env t of
                     Inl e \<Rightarrow> if e = SyntaxError then Inr (PyNone, 0, Suc k) else Inl e
                   | Inr retval \<Rightarrow>
                       Inr (retval, ticks env (Suc k) - ticks env k, Suc (Suc k)))))"

definition parse_discrete_list :: "env \<Rightarrow> pytext \<Rightarrow> nat \<Rightarrow> py_exception + (pyval \<times> int \<times> nat)" where
  "parse_discrete_list env text k =
     (let parser = mailbox_or_url_list_parser env;
          address_list = to_bytestring env text
      in if address_list = [] then Inr (PyNone, 0, k)
         else if length address_list > MAX_ADDRESS_LIST_LENGTH then Inr (PyNone, 0, k)
         else (case parser address_list of
                 Inl err \<Rightarrow> Inr (PyNone, 0, Suc k)
               | Inr t \<Rightarrow>
                  (case lift_parser_result env t of
                     Inl e \<Rightarrow> if e = SyntaxError then Inr (PyNone, 0, Suc k) else Inl e
                   | Inr retval \<Rightarrow>
                       Inr (retval, ticks env (Suc k) - ticks env k, Suc (Suc k)))))"

text \<open>
  The loop of \<^verbatim>\<open>parse_list\<close> over the items of a list. The state is \<^verbatim>\<open>parsed\<close>,
  \<^verbatim>\<open>unparsed\<close>, \<^verbatim>\<open>mtimes['parsing']\<close> and the clock readings.
\<close>

fun parse_list_items ::
  "env \<Rightarrow> pyval list \<Rightarrow> pyval list \<times> pyval list \<times> int \<times> nat
     \<Rightarrow> py_exception + (pyval list \<times> pyval list \<times> int \<times> nat)" where
  "parse_list_items env [] st = Inr st"
| "parse_list_items env (address # rest) (parsed, unparsed, mt, k) =
     (case address of
        PyText t \<Rightarrow>
          (case parse env t False k of
             Inl e \<Rightarrow> Inl e
           | Inr (retval, metrics, k') \<Rightarrow>
               if truthy retval
               then parse_list_items env rest (parsed @ [retval], unparsed, mt + metrics, k')
               else parse_list_items env rest (parsed, unparsed @ [address], mt + metrics, k'))
      | PyEmail a \<Rightarrow> parse_list_items env rest (parsed @ [address], unparsed, mt, k)
      | PyUrl a \<Rightarrow> parse_list_items env rest (parsed @ [address], unparsed, mt, k)
      | _ \<Rightarrow> parse_list_items env rest (parsed, unparsed @ [address], mt, k))"

text \<open>
  \<^verbatim>\<open>parse_list\<close>, in the shape of \<^verbatim>\<open>as_tuple=True, metrics=True\<close>: \<^verbatim>\<open>parsed\<close>,
  \<^verbatim>\<open>unparsed\<close> and \<^verbatim>\<open>mtimes['parsing']\<close> (the other shapes drop components of this
  one; \<^verbatim>\<open>strict\<close> only logs a warning).
\<close>

definition parse_list :: "env \<Rightarrow> pyval \<Rightarrow> nat \<Rightarrow> py_exception + (pyval \<times> pyval list \<times> int \<times> nat)" where
  "parse_list env address_list k =
     (if \<not> truthy address_list then Inr (PyAddressList [], [], 0, k)
      else (case address_list of
              PyList xs \<Rightarrow>
                if length xs > MAX_ADDRESS_NUMBER then Inr (PyAddressList [], [address_list], 0, k)
                else (case parse_list_items env xs ([], [], 0, k) of
                        Inl e \<Rightarrow> Inl e
                      | Inr (parsed, unparsed, mt, k') \<Rightarrow> Inr (PyAddressList parsed, unparsed, mt, k'))
            | PyText t \<Rightarrow>
                if py_len t > MAX_ADDRESS_LIST_LENGTH then Inr (PyAddressList [], [address_list], 0, k)
                else (case parse_discrete_list env t k of
                        Inl e \<Rightarrow> Inl e
                      | Inr (retval, metrics, k') \<Rightarrow>
                          if truthy retval then Inr (retval, [], 0 + metrics, k')
                          else Inr (PyAddressList [], [address_list], 0 + metrics, k'))
            | _ \<Rightarrow> Inr (PyAddressList [], [address_list], 0, k)))"

section \<open>Equality\<close>

text \<open>
  \<^verbatim>\<open>other.address\<close>: both address classes have the property, no other value has it.
\<close>

fun address_of :: "env \<Rightarrow> pyval \<Rightarrow> py_exception + unicode" where
  "address_of env (PyEmail a) = Inr (EmailAddress_address env a)"
| "address_of env (PyUrl u) = Inr (url_address u)"
| "address_of env v = Inl AttributeError"

text \<open>
  \<^verbatim>\<open>if isinstance(other, basestring): other = parse(other)\<close>, the first statement of
  both \<^verbatim>\<open>__eq__\<close> methods.
\<close>

definition parse_other :: "env \<Rightarrow> pyval \<Rightarrow> nat \<Rightarrow> py_exception + (pyval \<times> nat)" where
  "parse_other env other k =
     (case other of
        PyText t \<Rightarrow>
          (case parse env t False k of
             Inl e \<Rightarrow> Inl e
           | Inr (retval, metrics, k') \<Rightarrow> Inr (retval, k'))
      | _ \<Rightarrow> Inr (other, k))"

definition EmailAddress_eq :: "env \<Rightarrow> EmailAddress \<Rightarrow> pyval \<Rightarrow> nat \<Rightarrow> py_exception + (bool \<times> nat)" where
  "EmailAddress_eq env self other k =
     (case parse_other env other k of
        Inl e \<Rightarrow> Inl e
      | Inr (other', k') \<Rightarrow>
          if truthy other'
          then (case address_of env other' of
                  Inl e \<Rightarrow> Inl e
                | Inr a \<Rightarrow> Inr (lower env (EmailAddress_address env self) = lower env a, k'))
          else Inr (False, k'))"

definition UrlAddress_eq :: "env \<Rightarrow> UrlAddress \<Rightarrow> pyval \<Rightarrow> nat \<Rightarrow> py_exception + (bool \<times> nat)" where
  "UrlAddress_eq env self other k =
     (case parse_other env other k of
        Inl e \<Rightarrow> Inl e
      | Inr (other', k') \<Rightarrow>
          if truthy other'
          then (case address_of env other' of
                  Inl e \<Rightarrow> Inl e
                | Inr a \<Rightarrow> Inr (url_address self = a, k'))
          else Inr (False, k'))"

section \<open>Validation\<close>

text \<open>
  \<^verbatim>\<open>'@'.join(addr_parts)\<close>: a \<^verbatim>\<open>str\<close> when every part is a \<^verbatim>\<open>str\<close>; otherwise a
  \<^verbatim>\<open>unicode\<close>, where each \<^verbatim>\<open>str\<close> part is decoded as ASCII, which raises on a byte
  above 127.
\<close>

fun join :: "'a list \<Rightarrow> 'a list list \<Rightarrow> 'a list" where
  "join sep [] = []"
| "join sep [x] = x"
| "join sep (x # y # ys) = x @ sep @ join sep (y # ys)"

fun str_of :: "pytext \<Rightarrow> bytes option" where
  "str_of (Str s) = Some s"
| "str_of (Unicode u) = None"

fun unicode_of :: "pytext \<Rightarrow> unicode option" where
  "unicode_of (Unicode u) = Some u"
| "unicode_of (Str s) = (if list_all (\<lambda>c. of_char c < (128::nat)) s then Some (map of_char s) else None)"

definition join_at :: "pytext list \<Rightarrow> py_exception + pytext" where
  "join_at parts =
     (case those (map str_of parts) of
        Some ss \<Rightarrow> Inr (Str (join ''@'' ss))
      | None \<Rightarrow>
         (case those (map unicode_of parts) of
            Some us \<Rightarrow> Inr (Unicode (join (ascii ''@'') us))
          | None \<Rightarrow> Inl UnicodeDecodeError))"

definition mtimes0 :: mtimes where
  "mtimes0 = \<lparr>mx_lookup = 0, dns_lookup = 0, mx_conn = 0, parsing = 0, custom_grammar = 0\<rparr>"

text \<open>
  \<^verbatim>\<open>plugin and plugin.validate(local) is False\<close>: a plugin is there and its answer is
  the object \<^verbatim>\<open>False\<close>.
\<close>

definition plugin_rejects :: "(pytext \<Rightarrow> pyval) option \<Rightarrow> pytext \<Rightarrow> bool" where
  "plugin_rejects plugin local =
     (case plugin of None \<Rightarrow> False | Some validate \<Rightarrow> validate local = PyBool False)"

text \<open>
  \<^verbatim>\<open>validate_address\<close>, in the shape of \<^verbatim>\<open>metrics=True\<close>: the returned value, the
  metrics and the clock readings. \<^verbatim>\<open>addr_parts[-1]\<close> raises \<open>IndexError\<close> on an
  empty list.
\<close>

definition validate_address :: "env \<Rightarrow> pyval \<Rightarrow> nat \<Rightarrow> py_exception + (pyval \<times> mtimes \<times> nat)" where
  "validate_address env addr_spec k =
     (if addr_spec = PyNone then Inr (PyNone, mtimes0, k)
      else (case preparse_address env addr_spec of
              None \<Rightarrow> Inr (PyNone, mtimes0, k)
            | Some addr_parts \<Rightarrow>
               (case join_at addr_parts of
                  Inl e \<Rightarrow> Inl e
                | Inr joined \<Rightarrow>
                   (case parse env joined True (Suc k) of
                      Inl e \<Rightarrow> Inl e
                    | Inr (paddr, metrics, k1) \<Rightarrow>
                       (let mt1 = mtimes0\<lparr>parsing := ticks env k1 - ticks env k\<rparr>;
                            k2 = Suc k1
                        in if paddr = PyNone then Inr (PyNone, mt1, k2)
                           else if addr_parts = [] then Inl IndexError
                           else (let (exchanger, mx_metrics) = mail_exchanger_lookup env (last addr_parts);
                                     mt2 = mt1\<lparr>mx_lookup := mx_lookup mx_metrics,
                                               dns_lookup := dns_lookup mx_metrics,
                                               mx_conn := mx_conn mx_metrics\<rparr>
                                 in (case exchanger of
                                       None \<Rightarrow> Inr (PyNone, mt2, k2)
                                     | Some ex \<Rightarrow>
                                        (let plugin = plugin_for_esp env ex;
                                             mt3 = mt2\<lparr>custom_grammar := ticks env (Suc k2) - ticks env k2\<rparr>;
                                             k3 = Suc (Suc k2)
                                         in if plugin_rejects plugin (hd addr_parts)
                                            then Inr (PyNone, mt3, k3)
                                            else Inr (paddr, mt3, k3)))))))))"

text \<open>
  The first loop of \<^verbatim>\<open>validate_list\<close>, over the parsed addresses. The state is
  \<^verbatim>\<open>plist\<close>, \<^verbatim>\<open>ulist\<close>, \<^verbatim>\<open>mtimes\<close> and the clock readings. Only an
  \<^verbatim>\<open>EmailAddress\<close> has the attribute \<^verbatim>\<open>domain\<close>. \<^verbatim>\<open>mtimes['custom_grammar']\<close> is
  assigned, not added to, and only for an address that is kept.
\<close>

fun validate_parsed ::
  "env \<Rightarrow> pyval list \<Rightarrow> pyval list \<times> pyval list \<times> mtimes \<times> nat
     \<Rightarrow> py_exception + (pyval list \<times> pyval list \<times> mtimes \<times> nat)" where
  "validate_parsed env [] st = Inr st"
| "validate_parsed env (paddr # rest) (plist, ulist, mt, k) =
     (case paddr of
        PyEmail a \<Rightarrow>
          (let (exchanger, mx_metrics) = mail_exchanger_lookup env (Unicode (domain a));
               mt1 = mt\<lparr>mx_lookup := mx_lookup mt + mx_lookup mx_metrics,
                        dns_lookup := dns_lookup mt + dns_lookup mx_metrics,
                        mx_conn := mx_conn mt + mx_conn mx_metrics\<rparr>
           in (case exchanger of
                 None \<Rightarrow>
                   (case full_spec env a of
                      Inl e \<Rightarrow> Inl e
                    | Inr fs \<Rightarrow> validate_parsed env rest (plist, ulist @ [PyText (Str fs)], mt1, k))
               | Some ex \<Rightarrow>
                   (let plugin = plugin_for_esp env ex
                    in if plugin_rejects plugin (Unicode (local_part a))
                       then (case full_spec env a of
                               Inl e \<Rightarrow> Inl e
                             | Inr fs \<Rightarrow>
                                 validate_parsed env rest (plist, ulist @ [PyText (Str fs)], mt1, Suc k))
                       else validate_parsed env rest
                              (plist @ [paddr], ulist,
                               mt1\<lparr>custom_grammar := ticks env (Suc k) - ticks env k\<rparr>,
                               Suc (Suc k)))))
      | _ \<Rightarrow> Inl AttributeError)"

text \<open>
  \<^verbatim>\<open>for k, v in metrics.iteritems(): metrics[k] += v\<close>: every entry of the dictionary
  \<^verbatim>\<open>metrics\<close> gets its own value added.
\<close>

definition add_to_itself :: "mtimes \<Rightarrow> mtimes" where
  "add_to_itself metrics =
     \<lparr>mx_lookup = mx_lookup metrics + mx_lookup metrics,
      dns_lookup = dns_lookup metrics + dns_lookup metrics,
      mx_conn = mx_conn metrics + mx_conn metrics,
      parsing = parsing metrics + parsing metrics,
      custom_grammar = custom_grammar metrics + custom_grammar metrics\<rparr>"

text \<open>
  The second loop of \<^verbatim>\<open>validate_list\<close>, over the unparsable items. The dictionary
  that the last statement of the body updates is \<^verbatim>\<open>metrics\<close>, the one that
  \<^verbatim>\<open>validate_address\<close> has just returned; \<^verbatim>\<open>mtimes\<close> is not written.
\<close>

fun validate_unparseable ::
  "env \<Rightarrow> pyval list \<Rightarrow> pyval list \<times> pyval list \<times> mtimes \<times> nat
     \<Rightarrow> py_exception + (pyval list \<times> pyval list \<times> mtimes \<times> nat)" where
  "validate_unparseable env [] st = Inr st"
| "validate_unparseable env (unpar # rest) (plist, ulist, mt, k) =
     (case validate_address env unpar k of
        Inl e \<Rightarrow> Inl e
      | Inr (paddr, metrics, k') \<Rightarrow>
         (let (plist', ulist') =
                (if truthy paddr then (plist @ [paddr], ulist) else (plist, ulist @ [unpar]));
              metrics' = add_to_itself metrics
          in validate_unparseable env rest (plist', ulist', mt, k')))"

text \<open>
  \<^verbatim>\<open>for paddr in parsed_addresses\<close>: the items of an \<^verbatim>\<open>AddressList\<close> or of a list,
  the characters of a string; nothing else is iterable.
\<close>

fun py_iter :: "pyval \<Rightarrow> py_exception + pyval list" where
  "py_iter (PyAddressList c) = Inr c"
| "py_iter (PyList xs) = Inr xs"
| "py_iter (PyText (Str s)) = Inr (map (\<lambda>c. PyText (Str [c])) s)"
| "py_iter (PyText (Unicode u)) = Inr (map (\<lambda>c. PyText (Unicode [c])) u)"
| "py_iter v = Inl TypeError"

text \<open>
  \<^verbatim>\<open>validate_list\<close>, in the shape of \<^verbatim>\<open>metrics=True\<close>: \<^verbatim>\<open>plist\<close>, then \<^verbatim>\<open>ulist\<close>
  when the returned tuple has it, the metrics and the clock readings. The early
  return for a false \<^verbatim>\<open>addr_list\<close> has no \<^verbatim>\<open>ulist\<close>.
\<close>

definition validate_list ::
  "env \<Rightarrow> pyval \<Rightarrow> bool \<Rightarrow> nat \<Rightarrow> py_exception + (pyval \<times> pyval list option \<times> mtimes \<times> nat)" where
  "validate_list env addr_list as_tuple k =
     (if \<not> truthy addr_list then Inr (PyAddressList [], None, mtimes0, k)
      else (case parse_list env addr_list (Suc k) of
              Inl e \<Rightarrow> Inl e
            | Inr (parsed_addresses, unparseable, metrics, k1) \<Rightarrow>
               (let mt = mtimes0\<lparr>parsing := ticks env k1 - ticks env k\<rparr>;
                    k2 = Suc k1
                in (case py_iter parsed_addresses of
                      Inl e \<Rightarrow> Inl e
                    | Inr items \<Rightarrow>
                       (case validate_parsed env items ([], [], mt, k2) of
                          Inl e \<Rightarrow> Inl e
                        | Inr st \<Rightarrow>
                           (case validate_unparseable env unparseable st of
                              Inl e \<Rightarrow> Inl e
                            | Inr (plist, ulist, mt', k') \<Rightarrow>
                                Inr (PyAddressList plist,
                                     (if as_tuple then Some ulist else None), mt', k')))))))"

section \<open>An example environment\<close>

text \<open>
  Concrete collaborators on which the definitions can be run: a clock that advances by
  three ticks per reading, the ASCII part of the codecs and of the lower-case table
  (the \<^verbatim>\<open>idna\<close> codec refuses, as the real one does, a label that is empty or longer
  than 63 characters; a dot at the end is allowed), a
  grammar given by a table of a few inputs, a preparser that splits at \<^verbatim>\<open>@\<close> and drops
  the dots of a \<^verbatim>\<open>gmail.com\<close> local part, two domains with a mail exchanger, and one
  plugin, which accepts local parts of 6 to 30 characters.
\<close>

fun utf8_char :: "nat \<Rightarrow> nat list" where
  "utf8_char c =
     (if c < 128 then [c]
      else if c < 2048 then [192 + c div 64, 128 + c mod 64]
      else if c < 65536 then [224 + c div 4096, 128 + (c div 64) mod 64, 128 + c mod 64]
      else [240 + c div 262144, 128 + (c div 4096) mod 64, 128 + (c div 64) mod 64, 128 + c mod 64])"

definition example_utf8_encode :: "unicode \<Rightarrow> bytes" where
  "example_utf8_encode u = map char_of (concat (map utf8_char u))"

definition example_utf8_decode :: "bytes \<Rightarrow> unicode option" where
  "example_utf8_decode s =
     (if list_all (\<lambda>c. of_char c < (128::nat)) s then Some (map of_char s) else None)"

fun split_labels :: "unicode \<Rightarrow> unicode list" where
  "split_labels [] = [[]]"
| "split_labels (c # cs) =
     (if c = 46 then [] # split_labels cs
      else (case split_labels cs of
              [] \<Rightarrow> [[c]]
            | l # ls \<Rightarrow> (c # l) # ls))"

definition example_idna_encode :: "unicode \<Rightarrow> unicode option" where
  "example_idna_encode u =
     (let labels = split_labels u;
          labels' = (if last labels = [] then butlast labels else labels)
      in if is_pure_ascii u \<and> list_all (\<lambda>l. 0 < length l \<and> length l < 64) labels'
         then Some u else None)"

definition example_lower :: "nat \<Rightarrow> nat" where
  "example_lower c = (if 65 \<le> c \<and> c \<le> 90 then c + 32 else c)"

definition example_hash :: "unicode \<Rightarrow> int" where
  "example_hash u = foldl (\<lambda>h c. (31 * h + int c) mod 4294967296) 7 u"

definition example_addr_spec_parser :: "bytes \<Rightarrow> parser_error + tree" where
  "example_addr_spec_parser s =
     (case map_of
        [(''john@smith.com'', Mailbox [] ''john'' ''smith.com''),
         (''ab@gmail.com'', Mailbox [] ''ab'' ''gmail.com''),
         (''johnsmith@gmail.com'', Mailbox [] ''johnsmith'' ''gmail.com''),
         (''bob@nowhere.invalid'', Mailbox [] ''bob'' ''nowhere.invalid'')] s of
        Some t \<Rightarrow> Inr t
      | None \<Rightarrow> Inl ParserSyntaxError)"

definition example_mailbox_or_url_parser :: "bytes \<Rightarrow> parser_error + tree" where
  "example_mailbox_or_url_parser s =
     (case map_of
        [(''john@smith.com'', Mailbox [] ''john'' ''smith.com''),
         (''John Smith <john@smith.com>'', Mailbox ''John Smith'' ''john'' ''smith.com''),
         (''D <d@e>'', Mailbox ''D'' ''d'' ''e''),
         (''http://host.com/post?q'', Url ''http://host.com/post?q'')] s of
        Some t \<Rightarrow> Inr t
      | None \<Rightarrow> Inl ParserSyntaxError)"

definition example_list_parser :: "bytes \<Rightarrow> parser_error + tree" where
  "example_list_parser s =
     (case map_of
        [(''A <a@b>, D <d@e>'', TreeList [Mailbox ''A'' ''a'' ''b'', Mailbox ''D'' ''d'' ''e'']),
         (''john@smith.com'', TreeList [Mailbox [] ''john'' ''smith.com''])] s of
        Some t \<Rightarrow> Inr t
      | None \<Rightarrow> Inl ParserSyntaxError)"

fun split_at_sign :: "string \<Rightarrow> string list" where
  "split_at_sign [] = [[]]"
| "split_at_sign (c # cs) =
     (if c = CHR ''@'' then [] # split_at_sign cs
      else (case split_at_sign cs of
              [] \<Rightarrow> [[c]]
            | p # ps \<Rightarrow> (c # p) # ps))"

definition example_preparse_address :: "pyval \<Rightarrow> pytext list option" where
  "example_preparse_address v =
     (case v of
        PyText (Str s) \<Rightarrow>
          (case split_at_sign s of
             l # d # ps \<Rightarrow>
               if d = ''gmail.com''
               then Some (map Str (filter (\<lambda>c. c \<noteq> CHR ''.'') l # d # ps))
               else Some (map Str (l # d # ps))
           | _ \<Rightarrow> None)
      | _ \<Rightarrow> None)"

definition example_mail_exchanger_lookup :: "pytext \<Rightarrow> string option \<times> mx_metrics" where
  "example_mail_exchanger_lookup d =
     (if d = Str ''gmail.com'' \<or> d = Unicode (ascii ''gmail.com'')
      then (Some ''gmail-smtp-in.l.google.com'', \<lparr>mx_lookup = 7, dns_lookup = 3, mx_conn = 2\<rparr>)
      else if d = Str ''smith.com'' \<or> d = Unicode (ascii ''smith.com'')
      then (Some ''mx.smith.com'', \<lparr>mx_lookup = 5, dns_lookup = 1, mx_conn = 1\<rparr>)
      else (None, \<lparr>mx_lookup = 4, dns_lookup = 4, mx_conn = 0\<rparr>))"

definition example_plugin_for_esp :: "string \<Rightarrow> (pytext \<Rightarrow> pyval) option" where
  "example_plugin_for_esp ex =
     (if ex = ''gmail-smtp-in.l.google.com''
      then Some (\<lambda>local. PyBool (6 \<le> py_len local \<and> py_len local \<le> 30))
      else None)"

definition example_env :: env where
  "example_env =
     \<lparr>ticks = (\<lambda>k. 100 + 3 * int k),
      utf8_encode = example_utf8_encode,
      utf8_decode = example_utf8_decode,
      idna_encode = example_idna_encode,
      unichr_lower = example_lower,
      py_hash = example_hash,
      addr_spec_parser = example_addr_spec_parser,
      mailbox_or_url_parser = example_mailbox_or_url_parser,
      mailbox_or_url_list_parser = example_list_parser,
      smart_unquote = (\<lambda>u. u),
      smart_quote = (\<lambda>u. u),
      encode_string = (\<lambda>u maxlinelen. u),
      preparse_address = example_preparse_address,
      mail_exchanger_lookup = example_mail_exchanger_lookup,
      plugin_for_esp = example_plugin_for_esp\<rparr>"

section \<open>Notions used in the statements\<close>

text \<open>\<^verbatim>\<open>isinstance(v, basestring)\<close> and \<^verbatim>\<open>isinstance(v, list)\<close>.\<close>

fun isinstance_basestring :: "pyval \<Rightarrow> bool" where
  "isinstance_basestring (PyText t) = True"
| "isinstance_basestring v = False"

fun isinstance_list :: "pyval \<Rightarrow> bool" where
  "isinstance_list (PyList xs) = True"
| "isinstance_list v = False"

text \<open>A call returns the value \<open>v\<close> (with some metrics), rather than raising.\<close>

definition returns :: "py_exception + ('a \<times> 'r) \<Rightarrow> 'a \<Rightarrow> bool" where
  "returns r v = (case r of Inl e \<Rightarrow> False | Inr (v', rest) \<Rightarrow> v' = v)"

text \<open>A call raises an exception.\<close>

definition raises :: "py_exception + 'a \<Rightarrow> bool" where
  "raises r = (case r of Inl e \<Rightarrow> True | Inr x \<Rightarrow> False)"



text \<open>
  Two texts are equal case-insensitively: their lower-cased forms are the same.
\<close>

definition equal_ignoring_case :: "env \<Rightarrow> unicode \<Rightarrow> unicode \<Rightarrow> bool" where
  "equal_ignoring_case env u v = (lower env u = lower env v)"

text \<open>
  The parsed and the unparsed collection that \<^verbatim>\<open>parse_list\<close> returns.
\<close>

definition partitions ::
  "py_exception + (pyval \<times> pyval list \<times> int \<times> nat) \<Rightarrow> pyval \<Rightarrow> pyval list \<Rightarrow> bool" where
  "partitions r parsed unparsed =
     (case r of Inl e \<Rightarrow> False | Inr (p, u, m, k) \<Rightarrow> p = parsed \<and> u = unparsed)"

text \<open>
  What the loop of \<^verbatim>\<open>parse_list\<close> does with one item of a list: the item is appended
  to the parsed collection (as it is, or as the address parsed from it), or it is
  appended to the unparsed collection, or parsing it raises.
\<close>

fun item_parsed :: "env \<Rightarrow> pyval \<Rightarrow> bool" where
  "item_parsed env (PyText t) =
     (case parse env t False 0 of Inl e \<Rightarrow> False | Inr (retval, m, k) \<Rightarrow> truthy retval)"
| "item_parsed env (PyEmail a) = True"
| "item_parsed env (PyUrl a) = True"
| "item_parsed env v = False"

fun item_raises :: "env \<Rightarrow> pyval \<Rightarrow> bool" where
  "item_raises env (PyText t) = raises (parse env t False 0)"
| "item_raises env v = False"

text \<open>The metrics that a call returns.\<close>

definition metrics_of :: "py_exception + ('a \<times> 'm \<times> 'r) \<Rightarrow> 'm option" where
  "metrics_of r = (case r of Inl e \<Rightarrow> None | Inr (v, m, rest) \<Rightarrow> Some m)"

section \<open>Equality and hashing of addresses\<close>

text \<open>
  Claim C3. For all \<^verbatim>\<open>EmailAddress\<close> values \<open>a\<close> and \<open>b\<close>, \<^verbatim>\<open>a == b\<close> is true exactly
  when the derived addresses \<^verbatim>\<open>local_part@domain\<close> are equal case-insensitively, and
  then the two hashes are the same; in particular two addresses with the same local part
  whose domains differ only in case are equal and have the same hash.
\<close>

theorem EmailAddress_eq_hash:
  "EmailAddress_eq env a (PyEmail b) k
     = Inr (equal_ignoring_case env (EmailAddress_address env a) (EmailAddress_address env b), k)
   \<and> (EmailAddress_eq env a (PyEmail b) k = Inr (True, k)
        \<longrightarrow> EmailAddress_hash env a = EmailAddress_hash env b)
   \<and> (local_part a = local_part b \<and> equal_ignoring_case env (domain a) (domain b)
        \<longrightarrow> EmailAddress_eq env a (PyEmail b) k = Inr (True, k)
          \<and> EmailAddress_hash env a = EmailAddress_hash env b)"
  by (simp add: EmailAddress_eq_def parse_other_def EmailAddress_hash_def
        equal_ignoring_case_def EmailAddress_address_def lower_def)

text \<open>The addresses \<^verbatim>\<open>a@Host.COM\<close> and \<^verbatim>\<open>A <a@host.com>\<close> in the example environment.\<close>

theorem EmailAddress_eq_hash_witness:
  "EmailAddress_eq example_env
     \<lparr>display_name = [], local_part = ascii ''a'', domain = ascii ''Host.COM''\<rparr>
     (PyEmail \<lparr>display_name = ascii ''A'', local_part = ascii ''a'', domain = ascii ''host.com''\<rparr>) 0
     = Inr (True, 0)
   \<and> EmailAddress_hash example_env
       \<lparr>display_name = [], local_part = ascii ''a'', domain = ascii ''Host.COM''\<rparr>
     = EmailAddress_hash example_env
       \<lparr>display_name = ascii ''A'', local_part = ascii ''a'', domain = ascii ''host.com''\<rparr>"
proof -
  have "local_part \<lparr>display_name = [], local_part = ascii ''a'', domain = ascii ''Host.COM''\<rparr>
          = local_part \<lparr>display_name = ascii ''A'', local_part = ascii ''a'', domain = ascii ''host.com''\<rparr>
        \<and> equal_ignoring_case example_env
            (domain \<lparr>display_name = [], local_part = ascii ''a'', domain = ascii ''Host.COM''\<rparr>)
            (domain \<lparr>display_name = ascii ''A'', local_part = ascii ''a'', domain = ascii ''host.com''\<rparr>)"
    by code_simp
  with EmailAddress_eq_hash [of example_env
        "\<lparr>display_name = [], local_part = ascii ''a'', domain = ascii ''Host.COM''\<rparr>"
        "\<lparr>display_name = ascii ''A'', local_part = ascii ''a'', domain = ascii ''host.com''\<rparr>" 0]
  show ?thesis by blast
qed

text \<open>
  Claim C9. The equality of an \<^verbatim>\<open>EmailAddress\<close> does not look at the class of the other
  address: for every \<^verbatim>\<open>EmailAddress\<close> \<open>e\<close> and every \<^verbatim>\<open>UrlAddress\<close> \<open>u\<close> whose address
  equals the derived address of \<open>e\<close> case-insensitively, \<^verbatim>\<open>e == u\<close> is true, and the
  comparison gives what it gives for an \<^verbatim>\<open>EmailAddress\<close> with the same address.
\<close>

theorem EmailAddress_eq_UrlAddress:
  "EmailAddress_eq env e (PyUrl u) k
     = Inr (equal_ignoring_case env (EmailAddress_address env e) (url_address u), k)
   \<and> (equal_ignoring_case env (EmailAddress_address env e) (url_address u)
        \<longrightarrow> EmailAddress_eq env e (PyUrl u) k = Inr (True, k))
   \<and> (url_address u = EmailAddress_address env b
        \<longrightarrow> EmailAddress_eq env e (PyUrl u) k = EmailAddress_eq env e (PyEmail b) k)"
  by (simp add: EmailAddress_eq_def parse_other_def equal_ignoring_case_def)

text \<open>The address \<^verbatim>\<open>john@smith.com\<close> and a \<^verbatim>\<open>UrlAddress\<close> holding \<^verbatim>\<open>John@smith.com\<close>.\<close>

theorem EmailAddress_eq_UrlAddress_witness:
  "EmailAddress_eq example_env
     \<lparr>display_name = [], local_part = ascii ''john'', domain = ascii ''smith.com''\<rparr>
     (PyUrl \<lparr>url_address = ascii ''John@smith.com''\<rparr>) 0 = Inr (True, 0)
   \<and> EmailAddress_eq example_env
     \<lparr>display_name = [], local_part = ascii ''john'', domain = ascii ''smith.com''\<rparr>
     (PyUrl \<lparr>url_address = ascii ''John@smith.com''\<rparr>) 0
     = EmailAddress_eq example_env
     \<lparr>display_name = [], local_part = ascii ''john'', domain = ascii ''smith.com''\<rparr>
     (PyEmail \<lparr>display_name = [], local_part = ascii ''John'', domain = ascii ''SMITH.Com''\<rparr>) 0"
proof -
  have "equal_ignoring_case example_env
          (EmailAddress_address example_env
             \<lparr>display_name = [], local_part = ascii ''john'', domain = ascii ''smith.com''\<rparr>)
          (url_address \<lparr>url_address = ascii ''John@smith.com''\<rparr>)"
    by code_simp
  moreover have "url_address \<lparr>url_address = ascii ''John@smith.com''\<rparr>
          = EmailAddress_address example_env
              \<lparr>display_name = [], local_part = ascii ''John'', domain = ascii ''SMITH.Com''\<rparr>"
    by code_simp
  ultimately show ?thesis
    using EmailAddress_eq_UrlAddress [of example_env
        "\<lparr>display_name = [], local_part = ascii ''john'', domain = ascii ''smith.com''\<rparr>"
        "\<lparr>url_address = ascii ''John@smith.com''\<rparr>" 0
        "\<lparr>display_name = [], local_part = ascii ''John'', domain = ascii ''SMITH.Com''\<rparr>"]
    by blast
qed

section \<open>The encoding failures of \<^verbatim>\<open>to_ace\<close>\<close>




section \<open>Inputs of \<^verbatim>\<open>parse_list\<close> that are neither a string nor a list\<close>

text \<open>
  Claim C10. For every true input of \<^verbatim>\<open>parse_list\<close> that is neither a string nor a
  list, the parsed collection is empty and the unparsed collection has the input as its
  single element; for every false input both collections are empty.
\<close>

theorem parse_list_other_input:
  "(truthy v \<and> \<not> isinstance_basestring v \<and> \<not> isinstance_list v
      \<longrightarrow> parse_list env v k = Inr (PyAddressList [], [v], 0, k))
   \<and> (\<not> truthy v \<longrightarrow> parse_list env v k = Inr (PyAddressList [], [], 0, k))"
  by (cases v) (simp_all add: parse_list_def)

text \<open>The integer 5, an \<^verbatim>\<open>EmailAddress\<close>, \<^verbatim>\<open>None\<close>, the empty string and the empty list.\<close>

theorem parse_list_other_input_witness:
  "parse_list example_env (PyInt 5) 0 = Inr (PyAddressList [], [PyInt 5], 0, 0)
   \<and> parse_list example_env (PyUrl \<lparr>url_address = ascii ''http://host.com''\<rparr>) 0
       = Inr (PyAddressList [], [PyUrl \<lparr>url_address = ascii ''http://host.com''\<rparr>], 0, 0)
   \<and> parse_list example_env PyNone 0 = Inr (PyAddressList [], [], 0, 0)
   \<and> parse_list example_env (PyText (Str [])) 0 = Inr (PyAddressList [], [], 0, 0)
   \<and> parse_list example_env (PyList []) 0 = Inr (PyAddressList [], [], 0, 0)"
  using parse_list_other_input [of "PyInt 5" example_env 0]
    parse_list_other_input [of "PyUrl \<lparr>url_address = ascii ''http://host.com''\<rparr>" example_env 0]
    parse_list_other_input [of PyNone example_env 0]
    parse_list_other_input [of "PyText (Str [])" example_env 0]
    parse_list_other_input [of "PyList []" example_env 0]
  by simp

section \<open>Length ceilings\<close>

text \<open>
  Claim C4. \<^verbatim>\<open>parse\<close> returns \<^verbatim>\<open>None\<close>, and raises nothing, for an empty input and for
  an input of more than 1024 units; \<^verbatim>\<open>parse_discrete_list\<close> and the string branch of
  \<^verbatim>\<open>parse_list\<close> have the ceiling 1048576, which is 1024 times the ceiling of a single
  address, and a list string over it goes whole into the unparsed collection. The units
  of \<^verbatim>\<open>parse\<close> and \<^verbatim>\<open>parse_discrete_list\<close> are the bytes of the input as a byte string;
  \<^verbatim>\<open>parse_list\<close> first compares the length of the string as it was given.
\<close>

theorem length_ceilings:
  "(to_bytestring env t = [] \<longrightarrow> parse env t b k = Inr (PyNone, 0, k))
   \<and> (1024 < length (to_bytestring env t) \<longrightarrow> parse env t b k = Inr (PyNone, 0, k))
   \<and> MAX_ADDRESS_LIST_LENGTH = 1048576
   \<and> MAX_ADDRESS_LIST_LENGTH = 1024 * MAX_ADDRESS_LENGTH
   \<and> (1048576 < length (to_bytestring env t) \<longrightarrow> parse_discrete_list env t k = Inr (PyNone, 0, k))
   \<and> (truthy (PyText t) \<and> (1048576 < py_len t \<or> 1048576 < length (to_bytestring env t))
        \<longrightarrow> parse_list env (PyText t) k = Inr (PyAddressList [], [PyText t], 0, k))"
  by (simp add: parse_def parse_discrete_list_def parse_list_def MAX_ADDRESS_LIST_LENGTH_def
        MAX_ADDRESS_LENGTH_def MAX_ADDRESS_NUMBER_def Let_def)

text \<open>The empty string, a string of 1025 bytes and a string of 1048577 bytes.\<close>

theorem length_ceilings_witness:
  "parse example_env (Str []) True 0 = Inr (PyNone, 0, 0)
   \<and> parse example_env (Str (replicate 1025 (CHR ''a''))) False 0 = Inr (PyNone, 0, 0)
   \<and> parse_discrete_list example_env (Str (replicate 1048577 (CHR ''a''))) 0 = Inr (PyNone, 0, 0)
   \<and> parse_list example_env (PyText (Str (replicate 1048577 (CHR ''a'')))) 0
       = Inr (PyAddressList [], [PyText (Str (replicate 1048577 (CHR ''a'')))], 0, 0)"
  using length_ceilings [of example_env "Str []" True 0]
    length_ceilings [of example_env "Str (replicate 1025 (CHR ''a''))" False 0]
    length_ceilings [of example_env "Str (replicate 1048577 (CHR ''a''))" False 0]
  by simp

section \<open>The partition made by \<^verbatim>\<open>parse_list\<close>\<close>

text \<open>
  What \<^verbatim>\<open>parse\<close> returns, and whether it raises, does not depend on the clock.
\<close>

lemma parse_returns_indep:
  "returns (parse env t b k) v = returns (parse env t b k') v"
  by (auto simp: parse_def returns_def Let_def split: sum.splits)

lemma parse_raises_indep:
  "raises (parse env t b k) = raises (parse env t b k')"
  by (auto simp: parse_def raises_def Let_def split: sum.splits)

lemma parse_value_indep:
  "parse env t b k = Inr (v, m, k1) \<Longrightarrow> \<exists>m' k2. parse env t b k' = Inr (v, m', k2)"
  by (auto simp: parse_def Let_def split: sum.splits if_splits)

lemma item_parsed_text:
  "parse env t False k = Inr (v, m, k1) \<Longrightarrow> item_parsed env (PyText t) = truthy v"
  using parse_value_indep [of env t False k v m k1 0] by auto

lemma item_raises_text:
  "item_raises env (PyText t) = raises (parse env t False k)"
  using parse_raises_indep [of env t False 0 k] by simp

lemma returns_Inr: "returns r v \<Longrightarrow> \<exists>rest. r = Inr (v, rest)"
  by (cases r) (auto simp: returns_def)

text \<open>
  The loop appends every item to exactly one of the two collections: the unparsed
  collection grows by the items that are not parsed, in their order, and the parsed
  collection by one element for each of the others.
\<close>

lemma parse_list_items_partition:
  "parse_list_items env xs (ps, us, m, k) = Inr (ps', us', m', k')
   \<Longrightarrow> us' = us @ filter (\<lambda>x. \<not> item_parsed env x) xs
       \<and> length ps' = length ps + length (filter (item_parsed env) xs)"
proof (induction xs arbitrary: ps us m k)
  case Nil
  then show ?case by simp
next
  case (Cons x xs)
  show ?case
  proof (cases x)
    case (PyText t)
    with Cons.prems obtain v pm k1 where p: "parse env t False k = Inr (v, pm, k1)"
      by (auto split: sum.splits)
    show ?thesis
    proof (cases "truthy v")
      case True
      with Cons.prems PyText p
      have "parse_list_items env xs (ps @ [v], us, m + pm, k1) = Inr (ps', us', m', k')"
        by simp
      from Cons.IH [OF this] True item_parsed_text [OF p] PyText show ?thesis by simp
    next
      case False
      with Cons.prems PyText p
      have "parse_list_items env xs (ps, us @ [x], m + pm, k1) = Inr (ps', us', m', k')"
        by simp
      from Cons.IH [OF this] False item_parsed_text [OF p] PyText show ?thesis by simp
    qed
  next
    case (PyEmail a)
    with Cons.prems have "parse_list_items env xs (ps @ [x], us, m, k) = Inr (ps', us', m', k')"
      by simp
    from Cons.IH [OF this] PyEmail show ?thesis by simp
  next
    case (PyUrl a)
    with Cons.prems have "parse_list_items env xs (ps @ [x], us, m, k) = Inr (ps', us', m', k')"
      by simp
    from Cons.IH [OF this] PyUrl show ?thesis by simp
  qed (use Cons in \<open>auto dest!: Cons.IH\<close>)
qed

text \<open>The loop raises only when parsing one of the items raises.\<close>

lemma parse_list_items_returns:
  "list_all (\<lambda>x. \<not> item_raises env x) xs
   \<Longrightarrow> \<exists>ps' us' m' k'. parse_list_items env xs (ps, us, m, k) = Inr (ps', us', m', k')"
proof (induction xs arbitrary: ps us m k)
  case Nil
  then show ?case by simp
next
  case (Cons x xs)
  then have rest: "list_all (\<lambda>x. \<not> item_raises env x) xs" and x: "\<not> item_raises env x"
    by simp_all
  show ?case
  proof (cases x)
    case (PyText t)
    with x have "\<not> raises (parse env t False k)"
      using item_raises_text [of env t k] by simp
    then obtain v pm k1 where p: "parse env t False k = Inr (v, pm, k1)"
      by (cases "parse env t False k") (auto simp: raises_def)
    with PyText Cons.IH [OF rest] show ?thesis by simp
  qed (use Cons.IH [OF rest] in simp_all)
qed

lemma length_filter_partition:
  "length (filter P xs) + length (filter (\<lambda>x. \<not> P x) xs) = length xs"
  by (induction xs) auto

text \<open>
  Claim C2, as amended. For every list of at most 1024 items, none of which makes
  \<^verbatim>\<open>parse\<close> raise, \<^verbatim>\<open>parse_list\<close> returns, the number of parsed elements plus the
  number of unparsed elements is the number of items, and the unparsed collection is
  the list of the items that were not parsed, in their order; whenever \<^verbatim>\<open>parse_list\<close>
  returns on a list of at most 1024 items, the two numbers add up to the number of
  items. A list of more than 1024 items is not looked into: the parsed collection is
  empty and the unparsed collection has one element, the whole list.
\<close>

theorem parse_list_partition:
  "(length xs \<le> 1024 \<and> list_all (\<lambda>x. \<not> item_raises env x) xs
      \<longrightarrow> (\<exists>parsed unparsed m k'.
             parse_list env (PyList xs) k = Inr (PyAddressList parsed, unparsed, m, k')
             \<and> length parsed + length unparsed = length xs
             \<and> length parsed = length (filter (item_parsed env) xs)
             \<and> unparsed = filter (\<lambda>x. \<not> item_parsed env x) xs))
   \<and> (length xs \<le> 1024 \<and> partitions (parse_list env (PyList xs) k) parsed unparsed
      \<longrightarrow> (\<exists>ps. parsed = PyAddressList ps \<and> length ps + length unparsed = length xs))
   \<and> (1024 < length xs
      \<longrightarrow> partitions (parse_list env (PyList xs) k) (PyAddressList []) [PyList xs])"
proof (intro conjI impI)
  assume h: "length xs \<le> 1024 \<and> list_all (\<lambda>x. \<not> item_raises env x) xs"
  then obtain ps us m k' where r: "parse_list_items env xs ([], [], 0, k) = Inr (ps, us, m, k')"
    using parse_list_items_returns [of env xs "[]" "[]" 0 k] by blast
  from parse_list_items_partition [OF r]
  have us: "us = filter (\<lambda>x. \<not> item_parsed env x) xs"
    and ps: "length ps = length (filter (item_parsed env) xs)" by simp_all
  have "parse_list env (PyList xs) k = Inr (PyAddressList ps, us, m, k')"
    using h r by (cases xs) (simp_all add: parse_list_def MAX_ADDRESS_NUMBER_def)
  moreover have "length ps + length us = length xs"
    using us ps length_filter_partition [of "item_parsed env" xs] by simp
  ultimately show "\<exists>parsed unparsed m k'.
             parse_list env (PyList xs) k = Inr (PyAddressList parsed, unparsed, m, k')
             \<and> length parsed + length unparsed = length xs
             \<and> length parsed = length (filter (item_parsed env) xs)
             \<and> unparsed = filter (\<lambda>x. \<not> item_parsed env x) xs"
    using us ps by blast
next
  assume h: "length xs \<le> 1024 \<and> partitions (parse_list env (PyList xs) k) parsed unparsed"
  show "\<exists>ps. parsed = PyAddressList ps \<and> length ps + length unparsed = length xs"
  proof (cases xs)
    case Nil
    with h show ?thesis by (simp add: parse_list_def partitions_def)
  next
    case (Cons y ys)
    with h obtain ps m k' where r: "parse_list_items env xs ([], [], 0, k) = Inr (ps, unparsed, m, k')"
      and p: "parsed = PyAddressList ps"
      by (auto simp: parse_list_def partitions_def MAX_ADDRESS_NUMBER_def split: sum.splits)
    from parse_list_items_partition [OF r] length_filter_partition [of "item_parsed env" xs] p
    show ?thesis by simp
  qed
next
  assume "1024 < length xs"
  then show "partitions (parse_list env (PyList xs) k) (PyAddressList []) [PyList xs]"
    by (cases xs) (simp_all add: parse_list_def partitions_def MAX_ADDRESS_NUMBER_def)
qed

text \<open>
  The list \<^verbatim>\<open>['john@smith.com', 'C', 3, 'D <d@e>']\<close>, and a list of 1025 strings.
\<close>

theorem parse_list_partition_witness:
  "(\<exists>parsed unparsed m k'.
      parse_list example_env
        (PyList [PyText (Str ''john@smith.com''), PyText (Str ''C''), PyInt 3, PyText (Str ''D <d@e>'')]) 0
        = Inr (PyAddressList parsed, unparsed, m, k')
      \<and> length parsed + length unparsed = 4
      \<and> unparsed = [PyText (Str ''C''), PyInt 3])
   \<and> partitions
        (parse_list example_env (PyList (replicate 1025 (PyText (Str ''john@smith.com'')))) 0)
        (PyAddressList []) [PyList (replicate 1025 (PyText (Str ''john@smith.com'')))]"
proof -
  let ?xs = "[PyText (Str ''john@smith.com''), PyText (Str ''C''), PyInt 3, PyText (Str ''D <d@e>'')]"
  have h: "length ?xs \<le> 1024 \<and> list_all (\<lambda>x. \<not> item_raises example_env x) ?xs"
    by code_simp
  have f: "filter (\<lambda>x. \<not> item_parsed example_env x) ?xs = [PyText (Str ''C''), PyInt 3]"
    by code_simp
  have l: "1024 < length (replicate 1025 (PyText (Str ''john@smith.com'')))"
    by simp
  from parse_list_partition [of ?xs example_env 0] h
  obtain parsed unparsed m k' where
    r: "parse_list example_env (PyList ?xs) 0 = Inr (PyAddressList parsed, unparsed, m, k')"
    and n: "length parsed + length unparsed = length ?xs"
    and u: "unparsed = filter (\<lambda>x. \<not> item_parsed example_env x) ?xs"
    by blast
  from n have "length parsed + length unparsed = 4"
    by simp
  with r u f have "\<exists>parsed unparsed m k'.
      parse_list example_env (PyList ?xs) 0 = Inr (PyAddressList parsed, unparsed, m, k')
      \<and> length parsed + length unparsed = 4
      \<and> unparsed = [PyText (Str ''C''), PyInt 3]"
    by metis
  moreover from parse_list_partition [of "replicate 1025 (PyText (Str ''john@smith.com''))" example_env 0] l
  have "partitions
        (parse_list example_env (PyList (replicate 1025 (PyText (Str ''john@smith.com'')))) 0)
        (PyAddressList []) [PyList (replicate 1025 (PyText (Str ''john@smith.com'')))]"
    by blast
  ultimately show ?thesis by blast
qed

text \<open>
  Claim C2 as it was stated fails on a list of 1025 strings: the unparsed collection has
  one element and the parsed collection none, and 1 is not 1025.
\<close>

theorem parse_list_over_cap_counterexample:
  "partitions (parse_list example_env (PyList (replicate 1025 (PyText (Str ''john@smith.com'')))) 0)
     (PyAddressList []) [PyList (replicate 1025 (PyText (Str ''john@smith.com'')))]
   \<and> length ([] :: pyval list) + length [PyList (replicate 1025 (PyText (Str ''john@smith.com'')))]
       \<noteq> length (replicate 1025 (PyText (Str ''john@smith.com'')))"
  by (simp add: parse_list_def partitions_def MAX_ADDRESS_NUMBER_def)

section \<open>A string given to \<^verbatim>\<open>parse_list\<close>\<close>

lemma parse_list_string_falsy:
  "truthy (PyText t) \<Longrightarrow> parse_discrete_list env t k = Inr (v, m, k') \<Longrightarrow> \<not> truthy v
   \<Longrightarrow> partitions (parse_list env (PyText t) k) (PyAddressList []) [PyText t]"
  by (simp add: parse_list_def partitions_def)

lemma parse_list_string_truthy:
  "truthy (PyText t) \<Longrightarrow> py_len t \<le> MAX_ADDRESS_LIST_LENGTH
   \<Longrightarrow> parse_discrete_list env t k = Inr (v, m, k') \<Longrightarrow> truthy v
   \<Longrightarrow> partitions (parse_list env (PyText t) k) v []"
  by (simp add: parse_list_def partitions_def)

lemma parse_discrete_list_parser_fails:
  "mailbox_or_url_list_parser env (to_bytestring env t) = Inl err
   \<Longrightarrow> \<exists>k'. parse_discrete_list env t k = Inr (PyNone, 0, k')"
  by (simp add: parse_discrete_list_def Let_def)

text \<open>
  Claim C5, as amended. For every non-empty string given to \<^verbatim>\<open>parse_list\<close>: if
  \<^verbatim>\<open>parse_discrete_list\<close> returns a false value for it (\<^verbatim>\<open>None\<close>, or an empty list), in
  particular if the list parser fails on it, the parsed collection is empty and the
  unparsed collection has the input string, as it was given, as its single element; if
  the string is within the ceiling and \<^verbatim>\<open>parse_discrete_list\<close> returns a true value,
  that value is the parsed collection and the unparsed collection is empty. For the
  empty string both collections are empty.
\<close>

theorem parse_list_string:
  "(truthy (PyText t) \<and> returns (parse_discrete_list env t k) v \<and> \<not> truthy v
      \<longrightarrow> partitions (parse_list env (PyText t) k) (PyAddressList []) [PyText t])
   \<and> (truthy (PyText t) \<and> py_len t \<le> MAX_ADDRESS_LIST_LENGTH
        \<and> returns (parse_discrete_list env t k) v \<and> truthy v
      \<longrightarrow> partitions (parse_list env (PyText t) k) v [])
   \<and> (truthy (PyText t) \<and> mailbox_or_url_list_parser env (to_bytestring env t) = Inl err
      \<longrightarrow> partitions (parse_list env (PyText t) k) (PyAddressList []) [PyText t])
   \<and> (\<not> truthy (PyText t)
      \<longrightarrow> partitions (parse_list env (PyText t) k) (PyAddressList []) [])"
proof (intro conjI impI)
  assume h: "truthy (PyText t) \<and> returns (parse_discrete_list env t k) v \<and> \<not> truthy v"
  then obtain m k' where "parse_discrete_list env t k = Inr (v, m, k')"
    using returns_Inr [of "parse_discrete_list env t k" v] by auto
  with h show "partitions (parse_list env (PyText t) k) (PyAddressList []) [PyText t]"
    using parse_list_string_falsy by blast
next
  assume h: "truthy (PyText t) \<and> py_len t \<le> MAX_ADDRESS_LIST_LENGTH
        \<and> returns (parse_discrete_list env t k) v \<and> truthy v"
  then obtain m k' where "parse_discrete_list env t k = Inr (v, m, k')"
    using returns_Inr [of "parse_discrete_list env t k" v] by auto
  with h show "partitions (parse_list env (PyText t) k) v []"
    using parse_list_string_truthy by blast
next
  assume h: "truthy (PyText t) \<and> mailbox_or_url_list_parser env (to_bytestring env t) = Inl err"
  then obtain k' where "parse_discrete_list env t k = Inr (PyNone, 0, k')"
    using parse_discrete_list_parser_fails by blast
  with h show "partitions (parse_list env (PyText t) k) (PyAddressList []) [PyText t]"
    using parse_list_string_falsy [of t env k PyNone 0 k'] by simp
next
  assume "\<not> truthy (PyText t)"
  then show "partitions (parse_list env (PyText t) k) (PyAddressList []) []"
    by (simp add: parse_list_def partitions_def)
qed

text \<open>
  The strings \<^verbatim>\<open>A <a@b>, C, D <d@e>\<close>, on which the list parser fails,
  \<^verbatim>\<open>A <a@b>, D <d@e>\<close>, which it parses, and the empty string.
\<close>

theorem parse_list_string_witness:
  "partitions (parse_list example_env (PyText (Str ''A <a@b>, C, D <d@e>'')) 0)
     (PyAddressList []) [PyText (Str ''A <a@b>, C, D <d@e>'')]
   \<and> partitions (parse_list example_env (PyText (Str ''A <a@b>, D <d@e>'')) 0)
     (PyAddressList
        [PyEmail \<lparr>display_name = ascii ''A'', local_part = ascii ''a'', domain = ascii ''b''\<rparr>,
         PyEmail \<lparr>display_name = ascii ''D'', local_part = ascii ''d'', domain = ascii ''e''\<rparr>]) []
   \<and> partitions (parse_list example_env (PyText (Str [])) 0) (PyAddressList []) []"
proof -
  let ?v = "PyAddressList
        [PyEmail \<lparr>display_name = ascii ''A'', local_part = ascii ''a'', domain = ascii ''b''\<rparr>,
         PyEmail \<lparr>display_name = ascii ''D'', local_part = ascii ''d'', domain = ascii ''e''\<rparr>]"
  have a: "truthy (PyText (Str ''A <a@b>, C, D <d@e>''))
      \<and> returns (parse_discrete_list example_env (Str ''A <a@b>, C, D <d@e>'') 0) PyNone
      \<and> \<not> truthy PyNone"
    by (simp add: parse_discrete_list_def returns_def example_env_def example_list_parser_def
          MAX_ADDRESS_LIST_LENGTH_def MAX_ADDRESS_LENGTH_def MAX_ADDRESS_NUMBER_def)
  have b: "truthy (PyText (Str ''A <a@b>, D <d@e>''))
      \<and> py_len (Str ''A <a@b>, D <d@e>'') \<le> MAX_ADDRESS_LIST_LENGTH
      \<and> returns (parse_discrete_list example_env (Str ''A <a@b>, D <d@e>'') 0) ?v
      \<and> truthy ?v"
    by (simp add: parse_discrete_list_def returns_def example_env_def example_list_parser_def
          MAX_ADDRESS_LIST_LENGTH_def MAX_ADDRESS_LENGTH_def MAX_ADDRESS_NUMBER_def
          example_utf8_decode_def EmailAddress_init_def ascii_def)
  have c: "\<not> truthy (PyText (Str []))"
    by simp
  from parse_list_string [of "Str ''A <a@b>, C, D <d@e>''" example_env 0 PyNone] a
  have "partitions (parse_list example_env (PyText (Str ''A <a@b>, C, D <d@e>'')) 0)
     (PyAddressList []) [PyText (Str ''A <a@b>, C, D <d@e>'')]"
    by blast
  moreover from parse_list_string [of "Str ''A <a@b>, D <d@e>''" example_env 0 ?v] b
  have "partitions (parse_list example_env (PyText (Str ''A <a@b>, D <d@e>'')) 0) ?v []"
    by blast
  moreover from parse_list_string [of "Str []" example_env 0] c
  have "partitions (parse_list example_env (PyText (Str [])) 0) (PyAddressList []) []"
    by blast
  ultimately show ?thesis by blast
qed

text \<open>
  Claim C5 as it was stated fails on the empty string: \<^verbatim>\<open>parse_discrete_list\<close> has no
  result for it, and so has the list parser of the example environment, yet the
  unparsed collection is empty and does not hold the input.
\<close>

theorem parse_list_empty_string_counterexample:
  "returns (parse_discrete_list example_env (Str []) 0) PyNone
   \<and> mailbox_or_url_list_parser example_env (to_bytestring example_env (Str [])) = Inl ParserSyntaxError
   \<and> partitions (parse_list example_env (PyText (Str [])) 0) (PyAddressList []) []
   \<and> \<not> partitions (parse_list example_env (PyText (Str [])) 0) (PyAddressList []) [PyText (Str [])]"
  by (simp add: parse_list_def partitions_def returns_def parse_discrete_list_def
        example_env_def example_list_parser_def)

section \<open>The stages of \<^verbatim>\<open>validate_address\<close>\<close>

lemma validate_address_None:
  "validate_address env PyNone k = Inr (PyNone, mtimes0, k)"
  by (simp add: validate_address_def)

lemma validate_address_preparse_None:
  "preparse_address env a = None \<Longrightarrow> validate_address env a k = Inr (PyNone, mtimes0, k)"
  by (simp add: validate_address_def)

lemma parse_of_no_parts:
  "join_at [] = Inr j \<Longrightarrow> parse env j b k = Inr (PyNone, 0, k)"
  by (auto simp: join_at_def parse_def)

lemma validate_address_parsed:
  assumes "a \<noteq> PyNone" and "preparse_address env a = Some parts" and "join_at parts = Inr j"
    and "parse env j True (Suc k) = Inr (paddr, m, k1)"
  shows "paddr = PyNone \<Longrightarrow> returns (validate_address env a k) PyNone"
    and "paddr \<noteq> PyNone \<Longrightarrow> fst (mail_exchanger_lookup env (last parts)) = None
         \<Longrightarrow> returns (validate_address env a k) PyNone"
    and "paddr \<noteq> PyNone \<Longrightarrow> fst (mail_exchanger_lookup env (last parts)) = Some ex
         \<Longrightarrow> plugin_rejects (plugin_for_esp env ex) (hd parts)
         \<Longrightarrow> returns (validate_address env a k) PyNone"
    and "paddr \<noteq> PyNone \<Longrightarrow> fst (mail_exchanger_lookup env (last parts)) = Some ex
         \<Longrightarrow> \<not> plugin_rejects (plugin_for_esp env ex) (hd parts)
         \<Longrightarrow> returns (validate_address env a k) paddr"
proof -
  have ne: "paddr \<noteq> PyNone \<Longrightarrow> parts \<noteq> []"
    using assms(3,4) parse_of_no_parts [of j env True "Suc k"] by auto
  show "paddr = PyNone \<Longrightarrow> returns (validate_address env a k) PyNone"
    using assms by (simp add: validate_address_def returns_def Let_def)
  show "paddr \<noteq> PyNone \<Longrightarrow> fst (mail_exchanger_lookup env (last parts)) = None
         \<Longrightarrow> returns (validate_address env a k) PyNone"
    using assms ne by (auto simp: validate_address_def returns_def Let_def split: prod.splits)
  show "paddr \<noteq> PyNone \<Longrightarrow> fst (mail_exchanger_lookup env (last parts)) = Some ex
         \<Longrightarrow> plugin_rejects (plugin_for_esp env ex) (hd parts)
         \<Longrightarrow> returns (validate_address env a k) PyNone"
    using assms ne by (auto simp: validate_address_def returns_def Let_def split: prod.splits)
  show "paddr \<noteq> PyNone \<Longrightarrow> fst (mail_exchanger_lookup env (last parts)) = Some ex
         \<Longrightarrow> \<not> plugin_rejects (plugin_for_esp env ex) (hd parts)
         \<Longrightarrow> returns (validate_address env a k) paddr"
    using assms ne by (auto simp: validate_address_def returns_def Let_def split: prod.splits)
qed


text \<open>
  Claim C1. For every addr-spec, \<^verbatim>\<open>validate_address\<close> returns \<^verbatim>\<open>None\<close> if the
  preparser yields \<^verbatim>\<open>None\<close>, or \<^verbatim>\<open>parse\<close> of the parts joined by an at sign yields
  \<^verbatim>\<open>None\<close>, or the mail-exchanger lookup for the last part yields no exchanger, or a
  plugin registered for the exchanger answers \<^verbatim>\<open>False\<close> on the first part; when every
  stage passes, with no plugin registered or with a plugin that does not answer
  \<^verbatim>\<open>False\<close>, it returns exactly the value that \<^verbatim>\<open>parse\<close> produced.
\<close>

theorem validate_address_stages:
  "returns (validate_address env PyNone k) PyNone
   \<and> (preparse_address env a = None \<longrightarrow> returns (validate_address env a k) PyNone)
   \<and> (a \<noteq> PyNone \<and> preparse_address env a = Some parts \<and> join_at parts = Inr j
        \<and> returns (parse env j True k0) paddr
      \<longrightarrow> (paddr = PyNone \<longrightarrow> returns (validate_address env a k) PyNone)
        \<and> (paddr \<noteq> PyNone \<and> fst (mail_exchanger_lookup env (last parts)) = None
            \<longrightarrow> returns (validate_address env a k) PyNone)
        \<and> (paddr \<noteq> PyNone \<and> fst (mail_exchanger_lookup env (last parts)) = Some ex
              \<and> plugin_for_esp env ex = Some validate \<and> validate (hd parts) = PyBool False
            \<longrightarrow> returns (validate_address env a k) PyNone)
        \<and> (paddr \<noteq> PyNone \<and> fst (mail_exchanger_lookup env (last parts)) = Some ex
              \<and> plugin_for_esp env ex = None
            \<longrightarrow> returns (validate_address env a k) paddr)
        \<and> (paddr \<noteq> PyNone \<and> fst (mail_exchanger_lookup env (last parts)) = Some ex
              \<and> plugin_for_esp env ex = Some validate \<and> validate (hd parts) \<noteq> PyBool False
            \<longrightarrow> returns (validate_address env a k) paddr))"
proof (intro conjI)
  show "returns (validate_address env PyNone k) PyNone"
    by (simp add: validate_address_None returns_def)
next
  show "preparse_address env a = None \<longrightarrow> returns (validate_address env a k) PyNone"
    by (simp add: validate_address_preparse_None returns_def)
next
  show "a \<noteq> PyNone \<and> preparse_address env a = Some parts \<and> join_at parts = Inr j
        \<and> returns (parse env j True k0) paddr
      \<longrightarrow> (paddr = PyNone \<longrightarrow> returns (validate_address env a k) PyNone)
        \<and> (paddr \<noteq> PyNone \<and> fst (mail_exchanger_lookup env (last parts)) = None
            \<longrightarrow> returns (validate_address env a k) PyNone)
        \<and> (paddr \<noteq> PyNone \<and> fst (mail_exchanger_lookup env (last parts)) = Some ex
              \<and> plugin_for_esp env ex = Some validate \<and> validate (hd parts) = PyBool False
            \<longrightarrow> returns (validate_address env a k) PyNone)
        \<and> (paddr \<noteq> PyNone \<and> fst (mail_exchanger_lookup env (last parts)) = Some ex
              \<and> plugin_for_esp env ex = None
            \<longrightarrow> returns (validate_address env a k) paddr)
        \<and> (paddr \<noteq> PyNone \<and> fst (mail_exchanger_lookup env (last parts)) = Some ex
              \<and> plugin_for_esp env ex = Some validate \<and> validate (hd parts) \<noteq> PyBool False
            \<longrightarrow> returns (validate_address env a k) paddr)"
  proof
    assume h: "a \<noteq> PyNone \<and> preparse_address env a = Some parts \<and> join_at parts = Inr j
        \<and> returns (parse env j True k0) paddr"
    then have "returns (parse env j True (Suc k)) paddr"
      using parse_returns_indep [of env j True k0 paddr "Suc k"] by simp
    then obtain m k1 where p: "parse env j True (Suc k) = Inr (paddr, m, k1)"
      using returns_Inr [of "parse env j True (Suc k)" paddr] by auto
    from h have h1: "a \<noteq> PyNone" and h2: "preparse_address env a = Some parts"
      and h3: "join_at parts = Inr j" by simp_all
    note va = validate_address_parsed [OF h1 h2 h3 p]
    show "(paddr = PyNone \<longrightarrow> returns (validate_address env a k) PyNone)
        \<and> (paddr \<noteq> PyNone \<and> fst (mail_exchanger_lookup env (last parts)) = None
            \<longrightarrow> returns (validate_address env a k) PyNone)
        \<and> (paddr \<noteq> PyNone \<and> fst (mail_exchanger_lookup env (last parts)) = Some ex
              \<and> plugin_for_esp env ex = Some validate \<and> validate (hd parts) = PyBool False
            \<longrightarrow> returns (validate_address env a k) PyNone)
        \<and> (paddr \<noteq> PyNone \<and> fst (mail_exchanger_lookup env (last parts)) = Some ex
              \<and> plugin_for_esp env ex = None
            \<longrightarrow> returns (validate_address env a k) paddr)
        \<and> (paddr \<noteq> PyNone \<and> fst (mail_exchanger_lookup env (last parts)) = Some ex
              \<and> plugin_for_esp env ex = Some validate \<and> validate (hd parts) \<noteq> PyBool False
            \<longrightarrow> returns (validate_address env a k) paddr)"
      using va(1) va(2) va(3) [of ex] va(4) [of ex] by (simp add: plugin_rejects_def)
  qed
qed

text \<open>
  Six addr-specs in the example environment, one for each way through the stages: no
  at sign; not in the grammar; no mail exchanger; a two-letter local part, which the
  plugin rejects; a nine-letter local part, which the plugin accepts; a domain with no
  plugin.
\<close>

theorem validate_address_stages_witness:
  "returns (validate_address example_env (PyText (Str ''foo'')) 0) PyNone
   \<and> returns (validate_address example_env (PyText (Str ''x@y'')) 0) PyNone
   \<and> returns (validate_address example_env (PyText (Str ''bob@nowhere.invalid'')) 0) PyNone
   \<and> returns (validate_address example_env (PyText (Str ''a..b@gmail.com'')) 0) PyNone
   \<and> returns (validate_address example_env (PyText (Str ''john..smith@gmail.com'')) 0)
        (PyEmail \<lparr>display_name = [], local_part = ascii ''johnsmith'', domain = ascii ''gmail.com''\<rparr>)
   \<and> returns (validate_address example_env (PyText (Str ''john@smith.com'')) 0)
        (PyEmail \<lparr>display_name = [], local_part = ascii ''john'', domain = ascii ''smith.com''\<rparr>)"
proof -
  let ?gmail = "''gmail-smtp-in.l.google.com''"
  let ?plugin = "\<lambda>local. PyBool (6 \<le> py_len local \<and> py_len local \<le> 30)"
  have plugin: "plugin_for_esp example_env ?gmail = Some ?plugin"
    by (simp add: example_env_def example_plugin_for_esp_def)
  have no_plugin: "plugin_for_esp example_env ''mx.smith.com'' = None"
    by (simp add: example_env_def example_plugin_for_esp_def)

  have "preparse_address example_env (PyText (Str ''foo'')) = None"
    by code_simp
  with validate_address_stages [of example_env 0 "PyText (Str ''foo'')"]
  have 1: "returns (validate_address example_env (PyText (Str ''foo'')) 0) PyNone"
    by blast

  have "PyText (Str ''x@y'') \<noteq> PyNone
      \<and> preparse_address example_env (PyText (Str ''x@y'')) = Some [Str ''x'', Str ''y'']
      \<and> join_at [Str ''x'', Str ''y''] = Inr (Str ''x@y'')
      \<and> returns (parse example_env (Str ''x@y'') True 0) PyNone"
    by code_simp
  with validate_address_stages [of example_env 0 "PyText (Str ''x@y'')" "[Str ''x'', Str ''y'']"
      "Str ''x@y''" 0 PyNone]
  have 2: "returns (validate_address example_env (PyText (Str ''x@y'')) 0) PyNone"
    by blast

  let ?bob = "PyEmail \<lparr>display_name = [], local_part = ascii ''bob'', domain = ascii ''nowhere.invalid''\<rparr>"
  have "PyText (Str ''bob@nowhere.invalid'') \<noteq> PyNone
      \<and> preparse_address example_env (PyText (Str ''bob@nowhere.invalid''))
          = Some [Str ''bob'', Str ''nowhere.invalid'']
      \<and> join_at [Str ''bob'', Str ''nowhere.invalid''] = Inr (Str ''bob@nowhere.invalid'')
      \<and> returns (parse example_env (Str ''bob@nowhere.invalid'') True 0) ?bob
      \<and> ?bob \<noteq> PyNone
      \<and> fst (mail_exchanger_lookup example_env (last [Str ''bob'', Str ''nowhere.invalid''])) = None"
    by code_simp
  with validate_address_stages [of example_env 0 "PyText (Str ''bob@nowhere.invalid'')"
      "[Str ''bob'', Str ''nowhere.invalid'']" "Str ''bob@nowhere.invalid''" 0 ?bob]
  have 3: "returns (validate_address example_env (PyText (Str ''bob@nowhere.invalid'')) 0) PyNone"
    by blast

  let ?ab = "PyEmail \<lparr>display_name = [], local_part = ascii ''ab'', domain = ascii ''gmail.com''\<rparr>"
  have "PyText (Str ''a..b@gmail.com'') \<noteq> PyNone
      \<and> preparse_address example_env (PyText (Str ''a..b@gmail.com''))
          = Some [Str ''ab'', Str ''gmail.com'']
      \<and> join_at [Str ''ab'', Str ''gmail.com''] = Inr (Str ''ab@gmail.com'')
      \<and> returns (parse example_env (Str ''ab@gmail.com'') True 0) ?ab
      \<and> ?ab \<noteq> PyNone
      \<and> fst (mail_exchanger_lookup example_env (last [Str ''ab'', Str ''gmail.com''])) = Some ?gmail"
    by code_simp
  moreover have "?plugin (hd [Str ''ab'', Str ''gmail.com'']) = PyBool False"
    by simp
  ultimately have 4: "returns (validate_address example_env (PyText (Str ''a..b@gmail.com'')) 0) PyNone"
    using plugin validate_address_stages [of example_env 0 "PyText (Str ''a..b@gmail.com'')"
      "[Str ''ab'', Str ''gmail.com'']" "Str ''ab@gmail.com''" 0 ?ab ?gmail ?plugin]
    by blast

  let ?js = "PyEmail \<lparr>display_name = [], local_part = ascii ''johnsmith'', domain = ascii ''gmail.com''\<rparr>"
  have "PyText (Str ''john..smith@gmail.com'') \<noteq> PyNone
      \<and> preparse_address example_env (PyText (Str ''john..smith@gmail.com''))
          = Some [Str ''johnsmith'', Str ''gmail.com'']
      \<and> join_at [Str ''johnsmith'', Str ''gmail.com''] = Inr (Str ''johnsmith@gmail.com'')
      \<and> returns (parse example_env (Str ''johnsmith@gmail.com'') True 0) ?js
      \<and> ?js \<noteq> PyNone
      \<and> fst (mail_exchanger_lookup example_env (last [Str ''johnsmith'', Str ''gmail.com''])) = Some ?gmail"
    by code_simp
  moreover have "?plugin (hd [Str ''johnsmith'', Str ''gmail.com'']) \<noteq> PyBool False"
    by simp
  ultimately have 5: "returns (validate_address example_env (PyText (Str ''john..smith@gmail.com'')) 0) ?js"
    using plugin validate_address_stages [of example_env 0 "PyText (Str ''john..smith@gmail.com'')"
      "[Str ''johnsmith'', Str ''gmail.com'']" "Str ''johnsmith@gmail.com''" 0 ?js ?gmail ?plugin]
    by blast

  let ?john = "PyEmail \<lparr>display_name = [], local_part = ascii ''john'', domain = ascii ''smith.com''\<rparr>"
  have "PyText (Str ''john@smith.com'') \<noteq> PyNone
      \<and> preparse_address example_env (PyText (Str ''john@smith.com''))
          = Some [Str ''john'', Str ''smith.com'']
      \<and> join_at [Str ''john'', Str ''smith.com''] = Inr (Str ''john@smith.com'')
      \<and> returns (parse example_env (Str ''john@smith.com'') True 0) ?john
      \<and> ?john \<noteq> PyNone
      \<and> fst (mail_exchanger_lookup example_env (last [Str ''john'', Str ''smith.com''])) = Some ''mx.smith.com''"
    by code_simp
  with no_plugin validate_address_stages [of example_env 0 "PyText (Str ''john@smith.com'')"
      "[Str ''john'', Str ''smith.com'']" "Str ''john@smith.com''" 0 ?john "''mx.smith.com''"]
  have 6: "returns (validate_address example_env (PyText (Str ''john@smith.com'')) 0) ?john"
    by blast

  from 1 2 3 4 5 6 show ?thesis by blast
qed

section \<open>The metrics of \<^verbatim>\<open>validate_list\<close>\<close>

text \<open>
  The second loop of \<^verbatim>\<open>validate_list\<close> leaves \<^verbatim>\<open>mtimes\<close> as the first loop left it,
  whatever \<^verbatim>\<open>validate_address\<close> reports for the items.
\<close>

lemma validate_unparseable_mtimes:
  "validate_unparseable env us (pl, ul, mt, k) = Inr (pl', ul', mt', k') \<Longrightarrow> mt' = mt"
proof (induction us arbitrary: pl ul k)
  case Nil
  then show ?case by simp
next
  case (Cons u us)
  from Cons.prems obtain paddr metrics k1 where
    v: "validate_address env u k = Inr (paddr, metrics, k1)"
    by (auto split: sum.splits)
  show ?case
  proof (cases "truthy paddr")
    case True
    with Cons.prems v
    have "validate_unparseable env us (pl @ [paddr], ul, mt, k1) = Inr (pl', ul', mt', k')"
      by (simp add: Let_def)
    then show ?thesis by (rule Cons.IH)
  next
    case False
    with Cons.prems v
    have "validate_unparseable env us (pl, ul @ [u], mt, k1) = Inr (pl', ul', mt', k')"
      by (simp add: Let_def)
    then show ?thesis by (rule Cons.IH)
  qed
qed

text \<open>
  Claim C8 says that the metrics which \<^verbatim>\<open>validate_address\<close> reports for each item of
  the repair pass are added into the metrics that \<^verbatim>\<open>validate_list\<close> returns. The code
  does not do that. In the example environment \<^verbatim>\<open>john..smith@gmail.com\<close> is not in the
  grammar, so it is retried; the call of \<^verbatim>\<open>validate_address\<close> for it, made at the
  clock reading 3, accepts it and reports 7, 3, 2, 9 and 3 ticks. The metrics returned
  by \<^verbatim>\<open>validate_list\<close> for the list with this one item have 0 ticks for the three
  lookups and for the plugin, and the 6 ticks of the first pass for parsing. With
  \<^verbatim>\<open>john@smith.com\<close> in front, the returned metrics are those of that address alone.
\<close>

theorem validate_list_repair_metrics:
  "validate_address example_env (PyText (Str ''john..smith@gmail.com'')) 3
     = Inr (PyEmail \<lparr>display_name = [], local_part = ascii ''johnsmith'', domain = ascii ''gmail.com''\<rparr>,
            \<lparr>mx_lookup = 7, dns_lookup = 3, mx_conn = 2, parsing = 9, custom_grammar = 3\<rparr>, 9)
   \<and> validate_list example_env (PyList [PyText (Str ''john..smith@gmail.com'')]) True 0
     = Inr (PyAddressList
              [PyEmail \<lparr>display_name = [], local_part = ascii ''johnsmith'', domain = ascii ''gmail.com''\<rparr>],
            Some [],
            \<lparr>mx_lookup = 0, dns_lookup = 0, mx_conn = 0, parsing = 6, custom_grammar = 0\<rparr>, 9)
   \<and> validate_list example_env
        (PyList [PyText (Str ''john@smith.com''), PyText (Str ''john..smith@gmail.com'')]) True 0
     = Inr (PyAddressList
              [PyEmail \<lparr>display_name = [], local_part = ascii ''john'', domain = ascii ''smith.com''\<rparr>,
               PyEmail \<lparr>display_name = [], local_part = ascii ''johnsmith'', domain = ascii ''gmail.com''\<rparr>],
            Some [],
            \<lparr>mx_lookup = 5, dns_lookup = 1, mx_conn = 1, parsing = 12, custom_grammar = 3\<rparr>, 13)"
  by code_simp

end
